theory Spec2Isabelle
  imports Complex_Main "HOL-Library.Char_ord" "HOL-Library.List_Lexorder" "HOL-Library.Multiset"
begin

section \<open>Python values, dictionaries and exceptions\<close>

text \<open>
  The records that travel through the ingestion and read paths are Python dictionaries
  whose values are JSON scalars. A dictionary is a partial map from keys to values; a key
  that is present with the value \<open>None\<close> is different from a key that is absent.
  Python floats are modelled as real numbers: additions, products and comparisons are
  exact, and no rounding is represented.
\<close>

datatype pyval = PNone | PBool bool | PInt int | PFloat real | PStr string

type_synonym pydict = "string \<rightharpoonup> pyval"

text \<open>An exception carries the name of its type and its message (\<open>str(e)\<close>).\<close>

datatype exc = Exc (exc_type: string) (exc_msg: string)

definition TypeError :: "string \<Rightarrow> exc" where
  "TypeError m = Exc ''TypeError'' m"

definition ValueError :: "string \<Rightarrow> exc" where
  "ValueError m = Exc ''ValueError'' m"

definition ZeroDivisionError :: "string \<Rightarrow> exc" where
  "ZeroDivisionError m = Exc ''ZeroDivisionError'' m"

text \<open>\<open>d.get(k, default)\<close>: the default is used only when the key is absent.\<close>

definition dict_get :: "pydict \<Rightarrow> string \<Rightarrow> pyval \<Rightarrow> pyval" where
  "dict_get d k dflt = (case d k of None \<Rightarrow> dflt | Some v \<Rightarrow> v)"

text \<open>\<open>d.get(k)\<close>: an absent key reads as \<open>None\<close>.\<close>

definition dict_get_none :: "pydict \<Rightarrow> string \<Rightarrow> pyval" where
  "dict_get_none d k = dict_get d k PNone"

text \<open>
  The numeric reading of a value in arithmetic and in comparisons with a number:
  \<open>bool\<close> is a subtype of \<open>int\<close>; \<open>None\<close> and strings are not numbers.
\<close>

fun num_of :: "pyval \<Rightarrow> real option" where
  "num_of (PBool b) = Some (if b then 1 else 0)"
| "num_of (PInt i) = Some (real_of_int i)"
| "num_of (PFloat x) = Some x"
| "num_of PNone = None"
| "num_of (PStr s) = None"

text \<open>
  \<open>v * 100 * 0.3\<close>. \<open>None * 100\<close> raises; a string times \<open>100\<close> is a string, and that string
  times \<open>0.3\<close> raises.
\<close>

definition py_times_100_times_03 :: "pyval \<Rightarrow> exc + real" where
  "py_times_100_times_03 v =
     (case v of
        PNone \<Rightarrow> Inl (TypeError ''unsupported operand type(s) for *: 'NoneType' and 'int' '')
      | PStr s \<Rightarrow> Inl (TypeError ''can't multiply sequence by non-int of type 'float' '')
      | _ \<Rightarrow> Inr (the (num_of v) * 100 * 0.3))"

text \<open>\<open>v > c\<close> for a float constant \<open>c\<close>.\<close>

definition py_gt_float :: "pyval \<Rightarrow> real \<Rightarrow> exc + bool" where
  "py_gt_float v c =
     (case num_of v of
        None \<Rightarrow> Inl (TypeError '''>' not supported between instances'')
      | Some x \<Rightarrow> Inr (x > c))"

text \<open>
  \<open>table.get(v, default)\<close> on a table whose keys are strings: a value that is not a
  string is hashable and equal to no key.
\<close>

definition table_get :: "(string \<rightharpoonup> real) \<Rightarrow> pyval \<Rightarrow> real \<Rightarrow> real" where
  "table_get tbl v dflt =
     (case v of PStr s \<Rightarrow> (case tbl s of None \<Rightarrow> dflt | Some x \<Rightarrow> x) | _ \<Rightarrow> dflt)"

section \<open>Scoring engine: \<open>ModelManager.predict_stress\<close>\<close>

text \<open>
  A loaded artifact is opaque; what the code observes of it is its truthiness
  (\<open>not self.stress_model_bundle\<close>) and, for the health model, its \<open>predict\<close>.
\<close>

record artifact =
  truthy :: bool
  predict :: "pydict \<Rightarrow> exc + real"

record ModelManager =
  stress_model_bundle :: "artifact option"
  health_model :: "artifact option"
  models_loaded :: bool

definition py_truthy :: "artifact option \<Rightarrow> bool" where
  "py_truthy a = (case a of None \<Rightarrow> False | Some x \<Rightarrow> truthy x)"

record stress_result =
  stress_prediction :: string
  stress_confidence :: real

definition emotion_scores :: "string \<rightharpoonup> real" where
  "emotion_scores =
     [''happy'' \<mapsto> 10, ''neutral'' \<mapsto> 30, ''sad'' \<mapsto> 50, ''fear'' \<mapsto> 70, ''angry'' \<mapsto> 80]"

definition posture_scores :: "string \<rightharpoonup> real" where
  "posture_scores = [''good'' \<mapsto> 5, ''fair'' \<mapsto> 15, ''poor'' \<mapsto> 25, ''unknown'' \<mapsto> 15]"

text \<open>
  The rule-based score of \<open>predict_stress\<close> (the statements from the reading of the five
  features to the last \<open>stress_score += 5\<close>), in the order of the source. The data frame
  built before it from the same features is never used.
\<close>

definition stress_score :: "pydict \<Rightarrow> exc + real" where
  "stress_score feature_dict =
     (let emotion = dict_get feature_dict ''emotion'' (PStr ''neutral'');
          jaw_tension = dict_get feature_dict ''jaw_clench_score'' (PFloat 0);
          posture = dict_get feature_dict ''posture_quality'' (PStr ''unknown'');
          mouth_open = dict_get feature_dict ''mouth_open'' (PFloat 0);
          eyebrow_raise = dict_get feature_dict ''eyebrow_raise'' (PFloat 0);
          s0 = 0 + table_get emotion_scores emotion 30
      in case py_times_100_times_03 jaw_tension of
           Inl e \<Rightarrow> Inl e
         | Inr j \<Rightarrow>
            (let s1 = s0 + j;
                 s2 = s1 + table_get posture_scores posture 15
             in case py_gt_float mouth_open 0.03 of
                  Inl e \<Rightarrow> Inl e
                | Inr m \<Rightarrow>
                   (let s3 = (if m then s2 + 5 else s2)
                    in case py_gt_float eyebrow_raise 0.1 of
                         Inl e \<Rightarrow> Inl e
                       | Inr b \<Rightarrow> Inr (if b then s3 + 5 else s3))))"

text \<open>The body of the \<open>try\<close> block: score, bucket, confidence, cap.\<close>

definition predict_stress_try :: "pydict \<Rightarrow> exc + stress_result" where
  "predict_stress_try feature_dict =
     (case stress_score feature_dict of
        Inl e \<Rightarrow> Inl e
      | Inr s \<Rightarrow>
         (let (prediction, confidence) =
                (if s < 35 then (''low'', 0.75 + (35 - s) / 100)
                 else if s < 60 then (''medium'', 0.70 + \<bar>47.5 - s\<bar> / 100)
                 else (''high'', 0.72 + (s - 60) / 100))
          in Inr \<lparr>stress_prediction = prediction,
                  stress_confidence = min 0.95 confidence\<rparr>))"

definition predict_stress :: "ModelManager \<Rightarrow> pydict \<Rightarrow> stress_result" where
  "predict_stress self feature_dict =
     (if \<not> models_loaded self \<or> \<not> py_truthy (stress_model_bundle self)
      then \<lparr>stress_prediction = ''unknown'', stress_confidence = 0.0\<rparr>
      else (case predict_stress_try feature_dict of
              Inl e \<Rightarrow> \<lparr>stress_prediction = ''medium'', stress_confidence = 0.0\<rparr>
            | Inr r \<Rightarrow> r))"


text \<open>
  The claim's side of the scoring formula, on the five feature values: the emotion term,
  the jaw term, the posture term and the two threshold terms, then the three buckets.
\<close>

definition spec_emotion_term :: "pyval \<Rightarrow> real" where
  "spec_emotion_term e =
     (if e = PStr ''happy'' then 10 else if e = PStr ''neutral'' then 30
      else if e = PStr ''sad'' then 50 else if e = PStr ''fear'' then 70
      else if e = PStr ''angry'' then 80 else 30)"

definition spec_posture_term :: "pyval \<Rightarrow> real" where
  "spec_posture_term p =
     (if p = PStr ''good'' then 5 else if p = PStr ''fair'' then 15
      else if p = PStr ''poor'' then 25 else 15)"

definition spec_score :: "pyval \<Rightarrow> real \<Rightarrow> pyval \<Rightarrow> real \<Rightarrow> real \<Rightarrow> real" where
  "spec_score emotion jaw posture mouth eyebrow =
     spec_emotion_term emotion + jaw * 100 * 0.3 + spec_posture_term posture
       + (if mouth > 0.03 then 5 else 0) + (if eyebrow > 0.1 then 5 else 0)"

definition spec_bucket :: "real \<Rightarrow> string" where
  "spec_bucket s = (if s < 35 then ''low'' else if s < 60 then ''medium'' else ''high'')"

text \<open>
  The distance of a score from the nearest boundary of its bucket (the boundaries are 35
  and 60; the low bucket has only the upper one, the high bucket only the lower one).
\<close>

definition spec_boundary_distance :: "real \<Rightarrow> real" where
  "spec_boundary_distance s =
     (if s < 35 then 35 - s else if s < 60 then min (s - 35) (60 - s) else s - 60)"

text \<open>Concrete managers and feature mappings used as sample inputs.\<close>

definition loaded_manager :: ModelManager where
  "loaded_manager =
     \<lparr>stress_model_bundle = Some \<lparr>truthy = True, predict = (\<lambda>d. Inr 50)\<rparr>,
      health_model = Some \<lparr>truthy = True, predict = (\<lambda>d. Inr 50)\<rparr>,
      models_loaded = True\<rparr>"

definition unloaded_manager :: ModelManager where
  "unloaded_manager =
     \<lparr>stress_model_bundle = None, health_model = None, models_loaded = False\<rparr>"

definition calm_features :: pydict where
  "calm_features =
     [''emotion'' \<mapsto> PStr ''happy'', ''jaw_clench_score'' \<mapsto> PInt 0,
      ''posture_quality'' \<mapsto> PStr ''good'', ''mouth_open'' \<mapsto> PInt 0,
      ''eyebrow_raise'' \<mapsto> PInt 0]"

definition tense_features :: pydict where
  "tense_features =
     [''emotion'' \<mapsto> PStr ''angry'', ''jaw_clench_score'' \<mapsto> PFloat 0.5,
      ''posture_quality'' \<mapsto> PStr ''poor'', ''mouth_open'' \<mapsto> PFloat 0.05,
      ''eyebrow_raise'' \<mapsto> PFloat 0.2]"

definition edge_features :: pydict where
  "edge_features = [''emotion'' \<mapsto> PStr ''neutral'', ''posture_quality'' \<mapsto> PStr ''good'']"

definition middle_features :: pydict where
  "middle_features = [''emotion'' \<mapsto> PStr ''neutral'', ''posture_quality'' \<mapsto> PStr ''fair'']"

definition broken_features :: pydict where
  "broken_features = [''emotion'' \<mapsto> PStr ''sad'', ''jaw_clench_score'' \<mapsto> PNone]"

definition mild_features :: pydict where
  "mild_features = [''emotion'' \<mapsto> PStr ''happy'', ''posture_quality'' \<mapsto> PStr ''fair'']"

definition mild_open_features :: pydict where
  "mild_open_features =
     [''emotion'' \<mapsto> PStr ''happy'', ''posture_quality'' \<mapsto> PStr ''fair'',
      ''mouth_open'' \<mapsto> PFloat 0.05]"

section \<open>Trend classification: \<open>calculate_stress_trend\<close>\<close>

text \<open>\<open>a / b\<close> on floats raises on a zero divisor.\<close>

definition py_truediv :: "real \<Rightarrow> real \<Rightarrow> exc + real" where
  "py_truediv a b =
     (if b = 0 then Inl (ZeroDivisionError ''division by zero'') else Inr (a / b))"

definition calculate_stress_trend :: "real list \<Rightarrow> exc + string" where
  "calculate_stress_trend stress_levels =
     (if stress_levels = [] \<or> length stress_levels < 2 then Inr ''stable''
      else
        (case py_truediv (sum_list (take (length stress_levels div 2) stress_levels))
                (real (length stress_levels div 2)) of
           Inl e \<Rightarrow> Inl e
         | Inr avg_first_half \<Rightarrow>
            (case py_truediv (sum_list (drop (length stress_levels div 2) stress_levels))
                    (real (length stress_levels - length stress_levels div 2)) of
               Inl e \<Rightarrow> Inl e
             | Inr avg_second_half \<Rightarrow>
                 (if \<bar>avg_second_half - avg_first_half\<bar> < 0.5 then Inr ''stable''
                  else if avg_second_half > avg_first_half then Inr ''increasing''
                  else Inr ''decreasing''))))"

text \<open>The claim's side: the mean of a half and the difference of the two half means.\<close>

definition spec_mean :: "real list \<Rightarrow> real" where
  "spec_mean xs = sum_list xs / real (length xs)"

definition spec_half_difference :: "real list \<Rightarrow> real" where
  "spec_half_difference xs =
     spec_mean (drop (length xs div 2) xs) - spec_mean (take (length xs div 2) xs)"

section \<open>Failure classifier: \<open>is_network_error\<close>\<close>

text \<open>\<open>s.startswith(p)\<close> and the substring test \<open>needle in haystack\<close> on strings.\<close>

fun starts_with :: "string \<Rightarrow> string \<Rightarrow> bool" where
  "starts_with s [] = True"
| "starts_with [] (p # ps) = False"
| "starts_with (c # cs) (p # ps) = (c = p \<and> starts_with cs ps)"

fun py_in :: "string \<Rightarrow> string \<Rightarrow> bool" where
  "py_in needle [] = (needle = [])"
| "py_in needle (c # cs) = (starts_with (c # cs) needle \<or> py_in needle cs)"

definition network_indicators :: "string list" where
  "network_indicators =
     [''ConnectError'', ''getaddrinfo'', ''httpx'', ''ConnectionError'',
      ''TimeoutError'', ''NetworkError'', ''DNSError'']"

definition is_network_error :: "exc \<Rightarrow> bool" where
  "is_network_error exception =
     list_ex (\<lambda>indicator. py_in indicator (exc_type exception)
                         \<or> py_in indicator (exc_msg exception))
       network_indicators"

section \<open>Fallback store: \<open>OfflineStorage\<close>\<close>

text \<open>
  Each file holds a JSON list of records. \<open>None\<close> stands for a file that cannot be read
  or parsed: \<open>_read_file\<close> catches every exception and answers the empty list. (The
  users file is not touched by the operations below and is left out.)
\<close>

record OfflineStorage =
  habits_file :: "pydict list option"
  scans_file :: "pydict list option"

definition read_file :: "pydict list option \<Rightarrow> pydict list" where
  "read_file content = (case content of None \<Rightarrow> [] | Some records \<Rightarrow> records)"

text \<open>
  \<open>_write_file\<close> catches nothing: when opening the file for writing raises (the medium is
  unwritable), the exception leaves the method and the file is as before. Whether the
  attempt fails is the environment's: \<open>None\<close> is a write that went through.
\<close>

definition write_file :: "exc option \<Rightarrow> pydict list \<Rightarrow> exc + pydict list option" where
  "write_file fault records = (case fault of Some e \<Rightarrow> Inl e | None \<Rightarrow> Inr (Some records))"

definition create_habit ::
  "exc option \<Rightarrow> OfflineStorage \<Rightarrow> pydict \<Rightarrow> (exc + pydict) \<times> OfflineStorage" where
  "create_habit fault self habit_data =
     (let habits = read_file (habits_file self) @ [habit_data]
      in case write_file fault habits of
           Inl e \<Rightarrow> (Inl e, self)
         | Inr content \<Rightarrow> (Inr habit_data, self\<lparr>habits_file := content\<rparr>))"

text \<open>\<open>xs[:limit]\<close>: a negative limit counts from the end of the list.\<close>

definition py_slice_to :: "'a list \<Rightarrow> int \<Rightarrow> 'a list" where
  "py_slice_to xs limit =
     (if 0 \<le> limit then take (nat limit) xs else take (length xs - nat (- limit)) xs)"

text \<open>
  \<open>xs.sort(key=key, reverse=True)\<close>. The sort is stable and descending: elements with
  equal keys keep their order. Keys are compared with \<open><\<close>: strings with strings (by code
  point), numbers with numbers; any other pair raises \<open>TypeError\<close>. A list of fewer than
  two elements is compared with nothing.
\<close>

fun is_str :: "pyval \<Rightarrow> bool" where
  "is_str (PStr s) = True"
| "is_str v = False"

fun str_of :: "pyval \<Rightarrow> string" where
  "str_of (PStr s) = s"
| "str_of v = []"

definition num_key :: "pyval \<Rightarrow> real" where
  "num_key v = (case num_of v of None \<Rightarrow> 0 | Some x \<Rightarrow> x)"

definition py_sort_reverse :: "(pydict \<Rightarrow> pyval) \<Rightarrow> pydict list \<Rightarrow> exc + pydict list" where
  "py_sort_reverse key xs =
     (if length xs < 2 then Inr xs
      else if list_all (\<lambda>x. is_str (key x)) xs
        then Inr (rev (sort_key (\<lambda>x. str_of (key x)) (rev xs)))
      else if list_all (\<lambda>x. num_of (key x) \<noteq> None) xs
        then Inr (rev (sort_key (\<lambda>x. num_key (key x)) (rev xs)))
      else Inl (TypeError '''<' not supported between instances''))"

definition OfflineStorage_get_habits :: "OfflineStorage \<Rightarrow> int \<Rightarrow> exc + pydict list" where
  "OfflineStorage_get_habits self limit =
     (case py_sort_reverse (\<lambda>x. dict_get x ''created_at'' (PStr ''''))
             (read_file (habits_file self)) of
        Inl e \<Rightarrow> Inl e
      | Inr habits \<Rightarrow> Inr (py_slice_to habits limit))"

definition OfflineStorage_get_scans :: "OfflineStorage \<Rightarrow> int \<Rightarrow> exc + pydict list" where
  "OfflineStorage_get_scans self limit =
     (case py_sort_reverse (\<lambda>x. dict_get x ''scanned_at'' (PStr ''''))
             (read_file (scans_file self)) of
        Inl e \<Rightarrow> Inl e
      | Inr scans \<Rightarrow> Inr (py_slice_to scans limit))"

text \<open>The timestamp under which a stored record sorts.\<close>

definition sort_timestamp :: "string \<Rightarrow> pydict \<Rightarrow> string" where
  "sort_timestamp field r = str_of (dict_get r field (PStr ''''))"

text \<open>A stored record is well formed when its timestamp is absent or a string.\<close>

definition timestamp_ok :: "string \<Rightarrow> pydict \<Rightarrow> bool" where
  "timestamp_ok field r = is_str (dict_get r field (PStr ''''))"

section \<open>Wellness scoring: \<open>ModelManager.predict_wellness\<close>\<close>

record wellness_result =
  wellness_score :: real
  wellness_confidence :: real

definition wellness_row :: "pydict \<Rightarrow> pydict" where
  "wellness_row habit_inputs =
     [''age'' \<mapsto> dict_get habit_inputs ''age'' (PInt 25),
      ''sleep_hours'' \<mapsto> dict_get habit_inputs ''sleep_hours'' (PInt 7),
      ''work_hours'' \<mapsto> dict_get habit_inputs ''work_hours'' (PInt 8),
      ''screen_time'' \<mapsto> dict_get habit_inputs ''screen_time'' (PInt 6),
      ''water_intake'' \<mapsto> dict_get habit_inputs ''water_intake'' (PInt 2),
      ''exercise'' \<mapsto> dict_get habit_inputs ''exercise'' (PInt 0),
      ''caffine_intake'' \<mapsto> dict_get habit_inputs ''caffine_intake'' (PInt 0),
      ''meals_per_day'' \<mapsto> dict_get habit_inputs ''meals_per_day'' (PInt 3),
      ''social_interaction'' \<mapsto> dict_get habit_inputs ''social_interaction'' (PInt 1)]"

definition predict_wellness :: "ModelManager \<Rightarrow> pydict \<Rightarrow> wellness_result" where
  "predict_wellness self habit_inputs =
     (if \<not> models_loaded self \<or> \<not> py_truthy (health_model self)
      then \<lparr>wellness_score = 50, wellness_confidence = 0.0\<rparr>
      else (case health_model self of
              None \<Rightarrow> \<lparr>wellness_score = 50, wellness_confidence = 0.0\<rparr>
            | Some model \<Rightarrow>
               (case predict model (wellness_row habit_inputs) of
                  Inl e \<Rightarrow> \<lparr>wellness_score = 50, wellness_confidence = 0.0\<rparr>
                | Inr score \<Rightarrow> \<lparr>wellness_score = score, wellness_confidence = 0.9\<rparr>)))"

section \<open>Ingestion orchestrator: the \<open>habits\<close> route\<close>

record HabitSubmission =
  user_id :: string
  age :: int
  sleep_hours :: real
  work_hours :: real
  screen_time :: real
  water_intake :: real
  exercise :: bool
  meals_per_day :: int
  social_interaction :: string
  caffeine_intake :: bool

text \<open>\<open>data.dict()\<close>.\<close>

definition habit_dict :: "HabitSubmission \<Rightarrow> pydict" where
  "habit_dict d =
     [''user_id'' \<mapsto> PStr (user_id d), ''age'' \<mapsto> PInt (age d),
      ''sleep_hours'' \<mapsto> PFloat (sleep_hours d), ''work_hours'' \<mapsto> PFloat (work_hours d),
      ''screen_time'' \<mapsto> PFloat (screen_time d), ''water_intake'' \<mapsto> PFloat (water_intake d),
      ''exercise'' \<mapsto> PBool (exercise d), ''meals_per_day'' \<mapsto> PInt (meals_per_day d),
      ''social_interaction'' \<mapsto> PStr (social_interaction d),
      ''caffeine_intake'' \<mapsto> PBool (caffeine_intake d)]"

text \<open>
  \<open>HabitResponse\<close> declares three fields. The model ignores keyword arguments that are
  not fields (pydantic's default), so the \<open>wellness_score\<close> the route passes is dropped:
  \<open>extra\<close> holds such arguments. \<open>response_body\<close> is the JSON object sent to the caller.
\<close>

record HabitResponse =
  success :: bool
  message :: string
  habit_id :: "string option"

definition new_HabitResponse ::
  "bool \<Rightarrow> string \<Rightarrow> string option \<Rightarrow> pydict \<Rightarrow> HabitResponse" where
  "new_HabitResponse s m h extra = \<lparr>success = s, message = m, habit_id = h\<rparr>"

definition response_body :: "HabitResponse \<Rightarrow> pydict" where
  "response_body r =
     [''success'' \<mapsto> PBool (success r), ''message'' \<mapsto> PStr (message r),
      ''habit_id'' \<mapsto> (case habit_id r of None \<Rightarrow> PNone | Some h \<Rightarrow> PStr h)]"

text \<open>\<open>body["id"]\<close> as the string it is.\<close>

definition dict_str :: "pydict \<Rightarrow> string \<Rightarrow> string option" where
  "dict_str d k = (case d k of Some (PStr s) \<Rightarrow> Some s | _ \<Rightarrow> None)"

text \<open>
  What the environment decides during one call of the route: the values of the two
  possible \<open>uuid.uuid4()\<close> and \<open>iso_now()\<close> calls (in the \<open>try\<close> block and in the handler),
  whether the insert into the primary store raises, and whether each write of the
  fallback file raises.
\<close>

record ingest_env =
  uuid_first :: string
  now_first :: string
  uuid_retry :: string
  now_retry :: string
  insert_outcome :: "exc option"
  write_first :: "exc option"
  write_retry :: "exc option"

record world =
  primary_habits :: "pydict list"
  offline :: OfflineStorage

definition saved_response :: "ModelManager \<Rightarrow> string \<Rightarrow> pydict \<Rightarrow> HabitResponse" where
  "saved_response mm msg body =
     new_HabitResponse True msg (dict_str body ''id'')
       [''wellness_score'' \<mapsto> PFloat (wellness_score (predict_wellness mm body))]"

text \<open>The \<open>try\<close> block of \<open>habits\<close>.\<close>

definition habits_try ::
  "ingest_env \<Rightarrow> ModelManager \<Rightarrow> world \<Rightarrow> HabitSubmission
     \<Rightarrow> (exc + HabitResponse) \<times> world" where
  "habits_try env mm w submission =
     (let body = (habit_dict submission)(''id'' \<mapsto> PStr (uuid_first env),
                                         ''created_at'' \<mapsto> PStr (now_first env))
      in case insert_outcome env of
           None \<Rightarrow>
             (Inr (saved_response mm ''Saved successfully'' body),
              w\<lparr>primary_habits := primary_habits w @ [body]\<rparr>)
         | Some db_error \<Rightarrow>
             (if is_network_error db_error
              then (case create_habit (write_first env) (offline w) body of
                      (Inl e, st) \<Rightarrow> (Inl e, w\<lparr>offline := st\<rparr>)
                    | (Inr saved, st) \<Rightarrow>
                        (Inr (saved_response mm ''Saved successfully'' body),
                         w\<lparr>offline := st\<rparr>))
              else (Inl db_error, w)))"

text \<open>The route: the \<open>try\<close> block and its \<open>except Exception\<close> handler.\<close>

definition habits ::
  "ingest_env \<Rightarrow> ModelManager \<Rightarrow> world \<Rightarrow> HabitSubmission
     \<Rightarrow> (exc + HabitResponse) \<times> world" where
  "habits env mm w submission =
     (case habits_try env mm w submission of
        (Inr r, w1) \<Rightarrow> (Inr r, w1)
      | (Inl e, w1) \<Rightarrow>
          (if is_network_error e
           then (let body = (habit_dict submission)(''id'' \<mapsto> PStr (uuid_retry env),
                                                    ''created_at'' \<mapsto> PStr (now_retry env))
                 in case create_habit (write_retry env) (offline w1) body of
                      (Inl e2, st) \<Rightarrow>
                        (Inr (new_HabitResponse False ''Error saving habit'' None Map.empty),
                         w1\<lparr>offline := st\<rparr>)
                    | (Inr saved, st) \<Rightarrow>
                        (Inr (saved_response mm ''Saved offline (no internet connection)'' body),
                         w1\<lparr>offline := st\<rparr>))
           else (Inr (new_HabitResponse False ''Error saving habit'' None Map.empty), w1)))"

text \<open>The records the first attempt and the handler's attempt carry to a store.\<close>

definition first_body :: "ingest_env \<Rightarrow> HabitSubmission \<Rightarrow> pydict" where
  "first_body env submission =
     (habit_dict submission)(''id'' \<mapsto> PStr (uuid_first env),
                             ''created_at'' \<mapsto> PStr (now_first env))"

definition retry_body :: "ingest_env \<Rightarrow> HabitSubmission \<Rightarrow> pydict" where
  "retry_body env submission =
     (habit_dict submission)(''id'' \<mapsto> PStr (uuid_retry env),
                             ''created_at'' \<mapsto> PStr (now_retry env))"

section \<open>Read orchestrator: the \<open>get_scans\<close> route\<close>

text \<open>
  \<open>float(v)\<close>: \<open>None\<close> raises \<open>TypeError\<close>; a string is parsed, and raises \<open>ValueError\<close>
  when it is not a number. The parser of the language is a parameter.
\<close>

definition py_float :: "(string \<Rightarrow> real option) \<Rightarrow> pyval \<Rightarrow> exc + real" where
  "py_float parse v =
     (case v of
        PNone \<Rightarrow> Inl (TypeError ''float() argument must be a string or a real number'')
      | PStr s \<Rightarrow>
          (case parse s of
             None \<Rightarrow> Inl (ValueError ''could not convert string to float'')
           | Some x \<Rightarrow> Inr x)
      | _ \<Rightarrow> Inr (num_key v))"

text \<open>The body of the loop of \<open>get_scans\<close> for one stored record.\<close>

definition format_scan ::
  "(string \<Rightarrow> real option) \<Rightarrow> ModelManager \<Rightarrow> pydict \<Rightarrow> exc + pydict" where
  "format_scan parse mm scan =
     (let features =
            [''emotion'' \<mapsto> dict_get_none scan ''emotion'',
             ''emotion_confidence'' \<mapsto> dict_get_none scan ''emotion_confidence'',
             ''mouth_open'' \<mapsto> dict_get_none scan ''mouth_open'',
             ''eyebrow_raise'' \<mapsto> dict_get_none scan ''eyebrow_raise'',
             ''jaw_clench_score'' \<mapsto> dict_get_none scan ''jaw_clench_score'',
             ''posture_quality'' \<mapsto> dict_get_none scan ''posture_quality'',
             ''slouch_score'' \<mapsto> dict_get_none scan ''slouch_score'',
             ''head_tilt_angle'' \<mapsto> dict_get_none scan ''head_tilt_angle'',
             ''shoulder_alignment_diff'' \<mapsto> dict_get_none scan ''shoulder_alignment_diff'',
             ''spine_curve_ratio'' \<mapsto> dict_get_none scan ''spine_curve_ratio'',
             ''pose_confidence'' \<mapsto> dict_get_none scan ''pose_confidence''];
          prediction = predict_stress mm features;
          posture_str = dict_get scan ''posture_quality'' (PStr ''unknown'');
          posture_value = (if posture_str = PStr ''good'' then 100
                           else if posture_str = PStr ''fair'' then 60 else 30)
      in case py_float parse (dict_get scan ''emotion_confidence'' (PFloat 0.5)) of
           Inl e \<Rightarrow> Inl e
         | Inr emotion_confidence \<Rightarrow>
            (case py_float parse (dict_get scan ''jaw_clench_score'' (PFloat 0)) of
               Inl e \<Rightarrow> Inl e
             | Inr jaw \<Rightarrow>
                 Inr [''id'' \<mapsto> dict_get scan ''id'' (PStr ''''),
                      ''emotion'' \<mapsto> dict_get scan ''emotion'' (PStr ''neutral''),
                      ''emotionConfidence'' \<mapsto> PFloat emotion_confidence,
                      ''jawTension'' \<mapsto> PFloat (jaw * 100),
                      ''postureQuality'' \<mapsto> PFloat posture_value,
                      ''overallStress'' \<mapsto>
                         PFloat (if stress_prediction prediction = ''low'' then 20
                                 else if stress_prediction prediction = ''medium'' then 50
                                 else 80),
                      ''stressPrediction'' \<mapsto> PStr (stress_prediction prediction),
                      ''stressConfidence'' \<mapsto> PFloat (stress_confidence prediction),
                      ''timestamp'' \<mapsto> dict_get scan ''scanned_at'' (PStr ''''),
                      ''imageUrl'' \<mapsto> dict_get_none scan ''image_url'']))"

text \<open>The loop: a record whose formatting raises is skipped (\<open>continue\<close>).\<close>

fun format_scans ::
  "(string \<Rightarrow> real option) \<Rightarrow> ModelManager \<Rightarrow> pydict list \<Rightarrow> pydict list" where
  "format_scans parse mm [] = []"
| "format_scans parse mm (scan # rest) =
     (case format_scan parse mm scan of
        Inl e \<Rightarrow> format_scans parse mm rest
      | Inr formatted \<Rightarrow> formatted # format_scans parse mm rest)"

text \<open>The dictionary the route returns: the keys \<open>success\<close> and \<open>data\<close>.\<close>

record scans_response =
  scans_success :: bool
  scans_data :: "pydict list"

text \<open>
  The retrieval step. The outcome of the query on the primary store is the
  environment's: the rows it answers, or the exception it raises.
\<close>

definition retrieve_scans ::
  "exc + pydict list \<Rightarrow> OfflineStorage \<Rightarrow> int \<Rightarrow> exc + pydict list" where
  "retrieve_scans select_outcome storage limit =
     (case select_outcome of
        Inr rows \<Rightarrow> Inr rows
      | Inl db_error \<Rightarrow>
          (if is_network_error db_error then OfflineStorage_get_scans storage limit
           else Inl db_error))"

text \<open>The \<open>try\<close> block of \<open>get_scans\<close>.\<close>

definition get_scans_try ::
  "(string \<Rightarrow> real option) \<Rightarrow> ModelManager \<Rightarrow> exc + pydict list \<Rightarrow> OfflineStorage \<Rightarrow> int
     \<Rightarrow> exc + scans_response" where
  "get_scans_try parse mm select_outcome storage limit =
     (case retrieve_scans select_outcome storage limit of
        Inl e \<Rightarrow> Inl e
      | Inr rows \<Rightarrow>
          (if rows = [] then Inr \<lparr>scans_success = True, scans_data = []\<rparr>
           else Inr \<lparr>scans_success = True, scans_data = format_scans parse mm rows\<rparr>))"

text \<open>The route: the \<open>try\<close> block and its \<open>except Exception\<close> handler.\<close>

definition get_scans ::
  "(string \<Rightarrow> real option) \<Rightarrow> ModelManager \<Rightarrow> exc + pydict list \<Rightarrow> OfflineStorage \<Rightarrow> int
     \<Rightarrow> exc + scans_response" where
  "get_scans parse mm select_outcome storage limit =
     (case get_scans_try parse mm select_outcome storage limit of
        Inl e \<Rightarrow> Inr \<lparr>scans_success = True, scans_data = []\<rparr>
      | Inr r \<Rightarrow> Inr r)"

section \<open>Ingestion: sample inputs and the claims' side\<close>

text \<open>
  A submission, a connectivity error and a constraint violation as the primary store's
  client reports them, and the environments of an outage, of a constraint violation and
  of a healthy primary store.
\<close>

definition sample_submission :: HabitSubmission where
  "sample_submission =
     \<lparr>user_id = ''u1'', age = 30, sleep_hours = 7.5, work_hours = 8, screen_time = 5,
      water_intake = 2, exercise = True, meals_per_day = 3, social_interaction = ''high'',
      caffeine_intake = False\<rparr>"

definition connect_error :: exc where
  "connect_error = Exc ''ConnectError'' ''[Errno 11001] getaddrinfo failed''"

definition constraint_violation :: exc where
  "constraint_violation =
     Exc ''APIError'' ''duplicate key value violates unique constraint''"

definition outage_env :: ingest_env where
  "outage_env =
     \<lparr>uuid_first = ''id-1'', now_first = ''2024-01-01T00:00:00+00:00'',
      uuid_retry = ''id-2'', now_retry = ''2024-01-01T00:00:01+00:00'',
      insert_outcome = Some connect_error, write_first = None, write_retry = None\<rparr>"

definition constraint_env :: ingest_env where
  "constraint_env = outage_env\<lparr>insert_outcome := Some constraint_violation\<rparr>"

definition empty_world :: world where
  "empty_world =
     \<lparr>primary_habits = [], offline = \<lparr>habits_file = Some [], scans_file = Some []\<rparr>\<rparr>"

text \<open>
  Storage succeeded in the primary store, or in the fallback store, with the record \<open>b\<close>:
  the store of the world after the call holds the records it held before and then \<open>b\<close>.
\<close>

definition stored_in_primary :: "world \<Rightarrow> world \<Rightarrow> pydict \<Rightarrow> bool" where
  "stored_in_primary w w' b = (primary_habits w' = primary_habits w @ [b])"

definition stored_in_fallback :: "world \<Rightarrow> world \<Rightarrow> pydict \<Rightarrow> bool" where
  "stored_in_fallback w w' b =
     (habits_file (offline w') = Some (read_file (habits_file (offline w)) @ [b]))"

definition healthy_env :: ingest_env where
  "healthy_env = outage_env\<lparr>insert_outcome := None\<rparr>"


section \<open>Stores and reads: sample inputs and the claims' side\<close>

text \<open>
  Stored scans: two dated ones, one without a timestamp, and one whose emotion
  confidence is null; a fallback store holding the first three in the order they were
  appended.
\<close>

definition scan_jan :: pydict where
  "scan_jan =
     [''id'' \<mapsto> PStr ''s1'', ''scanned_at'' \<mapsto> PStr ''2024-01-05T10:00:00+00:00'',
      ''emotion'' \<mapsto> PStr ''happy'', ''emotion_confidence'' \<mapsto> PFloat 0.9,
      ''jaw_clench_score'' \<mapsto> PFloat 0, ''posture_quality'' \<mapsto> PStr ''good'',
      ''mouth_open'' \<mapsto> PFloat 0, ''eyebrow_raise'' \<mapsto> PFloat 0]"

definition scan_feb :: pydict where
  "scan_feb =
     [''id'' \<mapsto> PStr ''s2'', ''scanned_at'' \<mapsto> PStr ''2024-02-05T10:00:00+00:00'',
      ''emotion'' \<mapsto> PStr ''angry'', ''emotion_confidence'' \<mapsto> PFloat 0.8,
      ''jaw_clench_score'' \<mapsto> PFloat 0.5, ''posture_quality'' \<mapsto> PStr ''poor'',
      ''mouth_open'' \<mapsto> PFloat 0.05, ''eyebrow_raise'' \<mapsto> PFloat 0.2]"

definition scan_undated :: pydict where
  "scan_undated =
     [''id'' \<mapsto> PStr ''s3'', ''emotion'' \<mapsto> PStr ''sad'',
      ''emotion_confidence'' \<mapsto> PFloat 0.7, ''jaw_clench_score'' \<mapsto> PFloat 0.2,
      ''posture_quality'' \<mapsto> PStr ''fair'', ''mouth_open'' \<mapsto> PFloat 0,
      ''eyebrow_raise'' \<mapsto> PFloat 0]"

definition scan_null_confidence :: pydict where
  "scan_null_confidence =
     [''id'' \<mapsto> PStr ''s4'', ''scanned_at'' \<mapsto> PStr ''2024-03-05T10:00:00+00:00'',
      ''emotion'' \<mapsto> PStr ''neutral'', ''emotion_confidence'' \<mapsto> PNone,
      ''jaw_clench_score'' \<mapsto> PFloat 0.1, ''posture_quality'' \<mapsto> PStr ''good'']"

definition sample_storage :: OfflineStorage where
  "sample_storage =
     \<lparr>habits_file = Some [], scans_file = Some [scan_jan, scan_undated, scan_feb]\<rparr>"


text \<open>
  What the claim asks of a recent retrieval \<open>rs\<close> of at most \<open>limit\<close> records from the
  stored ones: at most \<open>limit\<close> records (as many as the store allows), all of them
  stored records, in non-increasing order of their sort timestamp, and no record with a
  non-empty sort timestamp after a record whose timestamp is missing.
\<close>

definition recent_ok :: "string \<Rightarrow> pydict list \<Rightarrow> int \<Rightarrow> pydict list \<Rightarrow> bool" where
  "recent_ok field stored limit rs =
     (int (length rs) \<le> limit
      \<and> length rs = min (nat limit) (length stored)
      \<and> mset rs \<subseteq># mset stored
      \<and> sorted_wrt (\<lambda>a b. sort_timestamp field b \<le> sort_timestamp field a) rs
      \<and> sorted_wrt (\<lambda>a b. a field = None \<longrightarrow> sort_timestamp field b = '''') rs)"


text \<open>
  Errors of the primary store's client: a permanent one and a connectivity one; and a
  parser that accepts no string.
\<close>

definition permission_denied :: exc where
  "permission_denied = Exc ''APIError'' ''permission denied for table stress_scan''"

definition timeout_error :: exc where
  "timeout_error = Exc ''ConnectTimeout'' ''httpx.ConnectTimeout: timed out''"

definition no_parse :: "string \<Rightarrow> real option" where
  "no_parse s = None"



section \<open>Verified properties of the scoring engine\<close>

lemmas stress_score_eval =
  stress_score_def dict_get_def Let_def table_get_def emotion_scores_def posture_scores_def
  py_times_100_times_03_def py_gt_float_def

lemma table_get_emotion_scores: "table_get emotion_scores e 30 = spec_emotion_term e"
  by (cases e) (simp_all add: table_get_def emotion_scores_def spec_emotion_term_def)

lemma table_get_posture_scores: "table_get posture_scores p 15 = spec_posture_term p"
  by (cases p) (simp_all add: table_get_def posture_scores_def spec_posture_term_def)

lemma py_times_numeric: "num_of v = Some j \<Longrightarrow> py_times_100_times_03 v = Inr (j * 100 * 0.3)"
  by (cases v) (simp_all add: py_times_100_times_03_def)

lemma py_gt_numeric: "num_of v = Some x \<Longrightarrow> py_gt_float v c = Inr (x > c)"
  by (simp add: py_gt_float_def)

lemma stress_score_numeric:
  assumes "num_of (dict_get f ''jaw_clench_score'' (PFloat 0)) = Some j"
    and "num_of (dict_get f ''mouth_open'' (PFloat 0)) = Some m"
    and "num_of (dict_get f ''eyebrow_raise'' (PFloat 0)) = Some b"
  shows "stress_score f =
     Inr (spec_score (dict_get f ''emotion'' (PStr ''neutral'')) j
            (dict_get f ''posture_quality'' (PStr ''unknown'')) m b)"
  using assms
  by (simp add: stress_score_def Let_def py_times_numeric py_gt_numeric
        table_get_emotion_scores table_get_posture_scores spec_score_def)

lemma predict_stress_loaded_bucket:
  "models_loaded mm \<Longrightarrow> py_truthy (stress_model_bundle mm) \<Longrightarrow> stress_score f = Inr s \<Longrightarrow>
   stress_prediction (predict_stress mm f) = spec_bucket s"
  by (simp add: predict_stress_def predict_stress_try_def spec_bucket_def Let_def)

lemma predict_stress_loaded_confidence:
  "models_loaded mm \<Longrightarrow> py_truthy (stress_model_bundle mm) \<Longrightarrow> stress_score f = Inr s \<Longrightarrow>
   stress_confidence (predict_stress mm f) =
     min 0.95 (if s < 35 then 0.75 + (35 - s) / 100
               else if s < 60 then 0.70 + \<bar>47.5 - s\<bar> / 100 else 0.72 + (s - 60) / 100)"
  by (simp add: predict_stress_def predict_stress_try_def Let_def)

lemma loaded_manager_loaded:
  "models_loaded loaded_manager" "py_truthy (stress_model_bundle loaded_manager)"
  by (simp_all add: loaded_manager_def py_truthy_def)

lemma stress_score_calm: "stress_score calm_features = Inr 15"
  by (simp add: stress_score_eval calm_features_def)

lemma stress_score_tense: "stress_score tense_features = Inr 130"
  by (simp add: stress_score_eval tense_features_def)

lemma stress_score_edge: "stress_score edge_features = Inr 35"
  by (simp add: stress_score_eval edge_features_def)

lemma stress_score_middle: "stress_score middle_features = Inr 45"
  by (simp add: stress_score_eval middle_features_def)

lemma stress_score_broken:
  "stress_score broken_features =
     Inl (TypeError ''unsupported operand type(s) for *: 'NoneType' and 'int' '')"
  by (simp add: stress_score_eval broken_features_def)

lemma stress_score_mild: "stress_score mild_features = Inr 25"
  by (simp add: stress_score_eval mild_features_def)

lemma stress_score_mild_open: "stress_score mild_open_features = Inr 30"
  by (simp add: stress_score_eval mild_open_features_def)

text \<open>
  Claim C1. With the model bundle loaded, and for every feature mapping whose three numeric
  features (jaw clench, mouth open, eyebrow raise) are numbers where present (an absent
  key reads as 0), the score computed inside \<open>predict_stress\<close> is the additive formula:
  emotion lookup (happy 10, neutral 30, sad 50, fear 70, angry 80, anything else 30)
  + jaw * 100 * 0.3 + posture lookup (good 5, fair 15, poor 25, anything else 15)
  + 5 if mouth open exceeds 0.03 + 5 if eyebrow raise exceeds 0.1; and the returned bucket
  is low below 35, medium from 35 up to but excluding 60, high from 60. The mapping
  happy, 0, good, 0, 0 has score 15 and bucket low.
\<close>

theorem predict_stress_additive_formula:
  assumes "models_loaded mm" and "py_truthy (stress_model_bundle mm)"
    and "num_of (dict_get f ''jaw_clench_score'' (PFloat 0)) = Some j"
    and "num_of (dict_get f ''mouth_open'' (PFloat 0)) = Some m"
    and "num_of (dict_get f ''eyebrow_raise'' (PFloat 0)) = Some b"
    and "S = spec_score (dict_get f ''emotion'' (PStr ''neutral'')) j
               (dict_get f ''posture_quality'' (PStr ''unknown'')) m b"
  shows "stress_score f = Inr S
       \<and> (S < 35 \<longrightarrow> stress_prediction (predict_stress mm f) = ''low'')
       \<and> (35 \<le> S \<and> S < 60 \<longrightarrow> stress_prediction (predict_stress mm f) = ''medium'')
       \<and> (60 \<le> S \<longrightarrow> stress_prediction (predict_stress mm f) = ''high'')
       \<and> stress_score calm_features = Inr 15
       \<and> stress_prediction (predict_stress loaded_manager calm_features) = ''low''"
proof -
  have sc: "stress_score f = Inr S"
    using stress_score_numeric [OF assms(3,4,5)] assms(6) by simp
  have bk: "stress_prediction (predict_stress mm f) = spec_bucket S"
    by (rule predict_stress_loaded_bucket [OF assms(1,2) sc])
  have ex: "stress_prediction (predict_stress loaded_manager calm_features) = ''low''"
    using predict_stress_loaded_bucket [OF loaded_manager_loaded stress_score_calm]
    by (simp add: spec_bucket_def)
  show ?thesis
    using sc bk ex stress_score_calm by (simp add: spec_bucket_def)
qed

theorem predict_stress_additive_formula_witness:
  "models_loaded loaded_manager \<and> py_truthy (stress_model_bundle loaded_manager)
   \<and> spec_score (PStr ''happy'') 0 (PStr ''good'') 0 0 = 15
   \<and> stress_score calm_features = Inr 15
   \<and> stress_prediction (predict_stress loaded_manager calm_features) = ''low''
   \<and> spec_score (PStr ''neutral'') 0 (PStr ''good'') 0 0 = 35
   \<and> stress_score edge_features = Inr 35
   \<and> stress_prediction (predict_stress loaded_manager edge_features) = ''medium''
   \<and> spec_score (PStr ''angry'') 0.5 (PStr ''poor'') 0.05 0.2 = 130
   \<and> stress_score tense_features = Inr 130
   \<and> stress_prediction (predict_stress loaded_manager tense_features) = ''high''"
proof -
  have v1: "spec_score (PStr ''happy'') 0 (PStr ''good'') 0 0 = 15"
    by (simp add: spec_score_def spec_emotion_term_def spec_posture_term_def)
  have v2: "spec_score (PStr ''angry'') 0.5 (PStr ''poor'') 0.05 0.2 = 130"
    by (simp add: spec_score_def spec_emotion_term_def spec_posture_term_def)
  have v3: "spec_score (PStr ''neutral'') 0 (PStr ''good'') 0 0 = 35"
    by (simp add: spec_score_def spec_emotion_term_def spec_posture_term_def)
  have c1: "num_of (dict_get calm_features ''jaw_clench_score'' (PFloat 0)) = Some 0"
    and c2: "num_of (dict_get calm_features ''mouth_open'' (PFloat 0)) = Some 0"
    and c3: "num_of (dict_get calm_features ''eyebrow_raise'' (PFloat 0)) = Some 0"
    and c4: "15 = spec_score (dict_get calm_features ''emotion'' (PStr ''neutral'')) 0
                    (dict_get calm_features ''posture_quality'' (PStr ''unknown'')) 0 0"
    by (simp_all add: calm_features_def dict_get_def spec_score_def spec_emotion_term_def
          spec_posture_term_def)
  have e1: "num_of (dict_get edge_features ''jaw_clench_score'' (PFloat 0)) = Some 0"
    and e2: "num_of (dict_get edge_features ''mouth_open'' (PFloat 0)) = Some 0"
    and e3: "num_of (dict_get edge_features ''eyebrow_raise'' (PFloat 0)) = Some 0"
    and e4: "35 = spec_score (dict_get edge_features ''emotion'' (PStr ''neutral'')) 0
                    (dict_get edge_features ''posture_quality'' (PStr ''unknown'')) 0 0"
    by (simp_all add: edge_features_def dict_get_def spec_score_def spec_emotion_term_def
          spec_posture_term_def)
  have t1: "num_of (dict_get tense_features ''jaw_clench_score'' (PFloat 0)) = Some 0.5"
    and t2: "num_of (dict_get tense_features ''mouth_open'' (PFloat 0)) = Some 0.05"
    and t3: "num_of (dict_get tense_features ''eyebrow_raise'' (PFloat 0)) = Some 0.2"
    and t4: "130 = spec_score (dict_get tense_features ''emotion'' (PStr ''neutral'')) 0.5
                    (dict_get tense_features ''posture_quality'' (PStr ''unknown'')) 0.05 0.2"
    by (simp_all add: tense_features_def dict_get_def spec_score_def spec_emotion_term_def
          spec_posture_term_def)
  have c: "stress_score calm_features = Inr 15
       \<and> stress_prediction (predict_stress loaded_manager calm_features) = ''low''"
    using predict_stress_additive_formula [OF loaded_manager_loaded c1 c2 c3 c4] by simp
  have e: "stress_score edge_features = Inr 35
       \<and> stress_prediction (predict_stress loaded_manager edge_features) = ''medium''"
    using predict_stress_additive_formula [OF loaded_manager_loaded e1 e2 e3 e4] by simp
  have t: "stress_score tense_features = Inr 130
       \<and> stress_prediction (predict_stress loaded_manager tense_features) = ''high''"
    using predict_stress_additive_formula [OF loaded_manager_loaded t1 t2 t3 t4] by simp
  show ?thesis using loaded_manager_loaded v1 v2 v3 c e t by simp
qed

text \<open>
  Claim C2, as the code has it. With the model bundle loaded and a score that is defined,
  the confidence lies in [0.70, 0.95] (it is capped at 0.95). In the low and in the high
  bucket it does not decrease as the score moves away from the bucket's boundary, and it
  increases strictly as long as the farther score is below the cap. The input angry, 0.5,
  poor, 0.05, 0.2 has score 130, bucket high and confidence exactly 0.95.
\<close>

theorem predict_stress_confidence_bounds:
  assumes "models_loaded mm" and "py_truthy (stress_model_bundle mm)"
    and "stress_score f = Inr s" and "stress_score g = Inr t"
  shows "0.70 \<le> stress_confidence (predict_stress mm f)
       \<and> stress_confidence (predict_stress mm f) \<le> 0.95
       \<and> (spec_bucket s = spec_bucket t \<and> spec_bucket s \<noteq> ''medium''
            \<and> spec_boundary_distance s \<le> spec_boundary_distance t
          \<longrightarrow> stress_confidence (predict_stress mm f)
                \<le> stress_confidence (predict_stress mm g))
       \<and> (spec_bucket s = spec_bucket t \<and> spec_bucket s \<noteq> ''medium''
            \<and> spec_boundary_distance s < spec_boundary_distance t
            \<and> stress_confidence (predict_stress mm g) < 0.95
          \<longrightarrow> stress_confidence (predict_stress mm f)
                < stress_confidence (predict_stress mm g))
       \<and> stress_score tense_features = Inr 130
       \<and> predict_stress loaded_manager tense_features =
            \<lparr>stress_prediction = ''high'', stress_confidence = 0.95\<rparr>"
proof -
  note cf = predict_stress_loaded_confidence [OF assms(1,2,3)]
  note cg = predict_stress_loaded_confidence [OF assms(1,2,4)]
  have b1: "0.70 \<le> stress_confidence (predict_stress mm f)"
    unfolding cf by (auto simp: min_def field_simps)
  have b2: "stress_confidence (predict_stress mm f) \<le> 0.95"
    unfolding cf by simp
  have m1: "spec_bucket s = spec_bucket t \<and> spec_bucket s \<noteq> ''medium''
            \<and> spec_boundary_distance s \<le> spec_boundary_distance t
          \<longrightarrow> stress_confidence (predict_stress mm f)
                \<le> stress_confidence (predict_stress mm g)"
    unfolding cf cg
    by (auto simp: spec_bucket_def spec_boundary_distance_def min_def field_simps
          split: if_splits)
  have m2: "spec_bucket s = spec_bucket t \<and> spec_bucket s \<noteq> ''medium''
            \<and> spec_boundary_distance s < spec_boundary_distance t
            \<and> stress_confidence (predict_stress mm g) < 0.95
          \<longrightarrow> stress_confidence (predict_stress mm f)
                < stress_confidence (predict_stress mm g)"
    unfolding cf cg
    by (auto simp: spec_bucket_def spec_boundary_distance_def min_def field_simps
          split: if_splits)
  have ex: "predict_stress loaded_manager tense_features =
            \<lparr>stress_prediction = ''high'', stress_confidence = 0.95\<rparr>"
    by (simp add: predict_stress_def predict_stress_try_def stress_score_tense
          loaded_manager_def py_truthy_def)
  show ?thesis using b1 b2 m1 m2 stress_score_tense ex by blast
qed

theorem predict_stress_confidence_bounds_witness:
  "stress_score mild_open_features = Inr 30 \<and> stress_score mild_features = Inr 25
   \<and> spec_bucket 30 = ''low'' \<and> spec_bucket 25 = ''low''
   \<and> spec_boundary_distance 30 < spec_boundary_distance 25
   \<and> 0.70 \<le> stress_confidence (predict_stress loaded_manager mild_open_features)
   \<and> stress_confidence (predict_stress loaded_manager mild_open_features) \<le> 0.95
   \<and> stress_confidence (predict_stress loaded_manager mild_features) < 0.95
   \<and> stress_confidence (predict_stress loaded_manager mild_open_features)
        < stress_confidence (predict_stress loaded_manager mild_features)
   \<and> predict_stress loaded_manager tense_features =
        \<lparr>stress_prediction = ''high'', stress_confidence = 0.95\<rparr>"
proof -
  have b: "spec_bucket 30 = ''low''" "spec_bucket 25 = ''low''"
    by (simp_all add: spec_bucket_def)
  have d: "spec_boundary_distance 30 < spec_boundary_distance 25"
    by (simp add: spec_boundary_distance_def)
  have g: "stress_confidence (predict_stress loaded_manager mild_features) < 0.95"
    by (simp add: predict_stress_loaded_confidence [OF loaded_manager_loaded stress_score_mild])
  show ?thesis
    using predict_stress_confidence_bounds
        [OF loaded_manager_loaded stress_score_mild_open stress_score_mild]
      b d g stress_score_mild stress_score_mild_open
    by simp
qed

text \<open>
  The claim as stated fails in the medium bucket: the score 35 sits on the boundary
  (distance 0) and the score 45 sits 10 away from the nearest boundary, both are medium,
  and the confidence of the farther one is the smaller (0.725 against 0.825).
\<close>

theorem medium_confidence_counterexample:
  "stress_score edge_features = Inr 35 \<and> stress_score middle_features = Inr 45
   \<and> stress_prediction (predict_stress loaded_manager edge_features) = ''medium''
   \<and> stress_prediction (predict_stress loaded_manager middle_features) = ''medium''
   \<and> spec_boundary_distance 35 < spec_boundary_distance 45
   \<and> stress_confidence (predict_stress loaded_manager middle_features)
       < stress_confidence (predict_stress loaded_manager edge_features)"
  by (simp add: stress_score_edge stress_score_middle predict_stress_def
        predict_stress_try_def loaded_manager_def py_truthy_def spec_boundary_distance_def)

text \<open>
  Claim C10. When the model bundle is not loaded (the flag is off or the bundle is
  falsy), \<open>predict_stress\<close> returns unknown with confidence 0 whatever the features are,
  also for features on which the formula would raise. When the bundle is loaded and the
  scoring computation raises, it returns medium with confidence 0. So a result with a
  bucket among low, medium, high and a confidence of at least 0.70 is only returned when
  the bundle is loaded.
\<close>

theorem predict_stress_defaults:
  "(\<not> models_loaded mm \<or> \<not> py_truthy (stress_model_bundle mm)
      \<longrightarrow> predict_stress mm f = \<lparr>stress_prediction = ''unknown'', stress_confidence = 0\<rparr>)
   \<and> (models_loaded mm \<and> py_truthy (stress_model_bundle mm) \<and> stress_score f = Inl e
      \<longrightarrow> predict_stress mm f = \<lparr>stress_prediction = ''medium'', stress_confidence = 0\<rparr>)
   \<and> (stress_prediction (predict_stress mm f) \<in> {''low'', ''medium'', ''high''}
        \<and> 0.70 \<le> stress_confidence (predict_stress mm f)
      \<longrightarrow> models_loaded mm \<and> py_truthy (stress_model_bundle mm))"
  by (auto simp: predict_stress_def predict_stress_try_def)

theorem predict_stress_defaults_witness:
  "predict_stress unloaded_manager broken_features =
      \<lparr>stress_prediction = ''unknown'', stress_confidence = 0\<rparr>
   \<and> predict_stress unloaded_manager calm_features =
      \<lparr>stress_prediction = ''unknown'', stress_confidence = 0\<rparr>
   \<and> predict_stress loaded_manager broken_features =
      \<lparr>stress_prediction = ''medium'', stress_confidence = 0\<rparr>
   \<and> stress_prediction (predict_stress loaded_manager calm_features)
        \<in> {''low'', ''medium'', ''high''}
   \<and> 0.70 \<le> stress_confidence (predict_stress loaded_manager calm_features)
   \<and> models_loaded loaded_manager \<and> py_truthy (stress_model_bundle loaded_manager)"
proof -
  have p: "stress_prediction (predict_stress loaded_manager calm_features)
        \<in> {''low'', ''medium'', ''high''}"
    using predict_stress_loaded_bucket [OF loaded_manager_loaded stress_score_calm]
    by (simp add: spec_bucket_def)
  have q: "0.70 \<le> stress_confidence (predict_stress loaded_manager calm_features)"
    by (simp add: predict_stress_loaded_confidence [OF loaded_manager_loaded stress_score_calm])
  have u: "\<not> models_loaded unloaded_manager" by (simp add: unloaded_manager_def)
  from predict_stress_defaults [of unloaded_manager broken_features] u
  have a1: "predict_stress unloaded_manager broken_features =
      \<lparr>stress_prediction = ''unknown'', stress_confidence = 0\<rparr>" by blast
  from predict_stress_defaults [of unloaded_manager calm_features] u
  have a2: "predict_stress unloaded_manager calm_features =
      \<lparr>stress_prediction = ''unknown'', stress_confidence = 0\<rparr>" by blast
  from predict_stress_defaults [of loaded_manager broken_features
      "TypeError ''unsupported operand type(s) for *: 'NoneType' and 'int' ''"]
    stress_score_broken loaded_manager_loaded
  have a3: "predict_stress loaded_manager broken_features =
      \<lparr>stress_prediction = ''medium'', stress_confidence = 0\<rparr>" by blast
  from predict_stress_defaults [of loaded_manager calm_features] p q
  have a4: "models_loaded loaded_manager \<and> py_truthy (stress_model_bundle loaded_manager)"
    by blast
  show ?thesis using a1 a2 a3 a4 p q by blast
qed

section \<open>Verified properties of the trend classification\<close>

lemma calculate_stress_trend_unfold:
  assumes "2 \<le> length xs"
  shows "calculate_stress_trend xs =
     Inr (if \<bar>spec_half_difference xs\<bar> < 1/2 then ''stable''
          else if 0 < spec_half_difference xs then ''increasing'' else ''decreasing'')"
proof -
  let ?h = "length xs div 2"
  let ?m1 = "spec_mean (take ?h xs)"
  let ?m2 = "spec_mean (drop ?h xs)"
  from assms have ne: "xs \<noteq> []" "\<not> length xs < 2" by auto
  have h1: "?h \<noteq> 0" using assms by auto
  have h2: "length xs - ?h \<noteq> 0" using assms by auto
  have l1: "length (take ?h xs) = ?h" by simp
  have l2: "length (drop ?h xs) = length xs - ?h" by simp
  have t1: "py_truediv (sum_list (take ?h xs)) (real ?h) = Inr ?m1"
    unfolding py_truediv_def spec_mean_def l1 using h1 by simp
  have t2: "py_truediv (sum_list (drop ?h xs)) (real (length xs - ?h)) = Inr ?m2"
    unfolding py_truediv_def spec_mean_def l2 using h2 by simp
  have "calculate_stress_trend xs =
     (if \<bar>?m2 - ?m1\<bar> < 0.5 then Inr ''stable''
      else if ?m2 > ?m1 then Inr ''increasing'' else Inr ''decreasing'')"
    unfolding calculate_stress_trend_def t1 t2 using ne by simp
  then show ?thesis
    unfolding spec_half_difference_def by auto
qed

text \<open>
  Claim C3, as the code has it. The list is split into its first \<open>n div 2\<close> elements and
  the rest, and the two means are compared: fewer than two points give stable; a
  difference of the means below 0.5 in absolute value gives stable; otherwise the sign of
  (second-half mean - first-half mean) gives increasing or decreasing. The call never
  raises. [10,10,10,80,80,80] is increasing, [80,80,80,10,10,10] is decreasing, a single
  point is stable, and [50,51,49,50] is decreasing (its half means are 50.5 and 49.5).
\<close>

theorem calculate_stress_trend_classification:
  "(length xs < 2 \<longrightarrow> calculate_stress_trend xs = Inr ''stable'')
   \<and> (2 \<le> length xs \<and> \<bar>spec_half_difference xs\<bar> < 1/2
        \<longrightarrow> calculate_stress_trend xs = Inr ''stable'')
   \<and> (2 \<le> length xs \<and> 1/2 \<le> spec_half_difference xs
        \<longrightarrow> calculate_stress_trend xs = Inr ''increasing'')
   \<and> (2 \<le> length xs \<and> spec_half_difference xs \<le> - (1/2)
        \<longrightarrow> calculate_stress_trend xs = Inr ''decreasing'')
   \<and> calculate_stress_trend [10, 10, 10, 80, 80, 80] = Inr ''increasing''
   \<and> calculate_stress_trend [80, 80, 80, 10, 10, 10] = Inr ''decreasing''
   \<and> calculate_stress_trend [50, 51, 49, 50] = Inr ''decreasing''
   \<and> calculate_stress_trend [x] = Inr ''stable''"
proof -
  have s: "length xs < 2 \<longrightarrow> calculate_stress_trend xs = Inr ''stable''"
    by (auto simp: calculate_stress_trend_def)
  have e1: "calculate_stress_trend [10, 10, 10, 80, 80, 80] = Inr ''increasing''"
    by (simp add: calculate_stress_trend_def py_truediv_def)
  have e2: "calculate_stress_trend [80, 80, 80, 10, 10, 10] = Inr ''decreasing''"
    by (simp add: calculate_stress_trend_def py_truediv_def)
  have e3: "calculate_stress_trend [50, 51, 49, 50] = Inr ''decreasing''"
    by (simp add: calculate_stress_trend_def py_truediv_def)
  have e4: "calculate_stress_trend [x] = Inr ''stable''"
    by (simp add: calculate_stress_trend_def)
  show ?thesis using s e1 e2 e3 e4 by (auto simp: calculate_stress_trend_unfold)
qed

theorem calculate_stress_trend_classification_witness:
  "calculate_stress_trend [] = Inr ''stable''
   \<and> spec_half_difference [10, 10, 10, 80, 80, 80] = 70
   \<and> calculate_stress_trend [10, 10, 10, 80, 80, 80] = Inr ''increasing''
   \<and> spec_half_difference [50, 51, 49, 50] = -1
   \<and> calculate_stress_trend [50, 51, 49, 50] = Inr ''decreasing''
   \<and> spec_half_difference [50, 50.2, 50.1, 50.3] = 0.1
   \<and> calculate_stress_trend [50, 50.2, 50.1, 50.3] = Inr ''stable''"
  using calculate_stress_trend_classification [of "[]"]
    calculate_stress_trend_classification [of "[10, 10, 10, 80, 80, 80]"]
    calculate_stress_trend_classification [of "[50, 51, 49, 50]"]
    calculate_stress_trend_classification [of "[50, 50.2, 50.1, 50.3]"]
  by (simp add: spec_half_difference_def spec_mean_def)

text \<open>
  The claim's third example fails: on [50,51,49,50] the half means differ by 1, which is
  not below the threshold, so the result is decreasing and not stable.
\<close>

theorem stress_trend_example_counterexample:
  "calculate_stress_trend [50, 51, 49, 50] = Inr ''decreasing''
   \<and> calculate_stress_trend [50, 51, 49, 50] \<noteq> Inr ''stable''"
  by (simp add: calculate_stress_trend_def py_truediv_def)

section \<open>Verified properties of the ingestion orchestrator\<close>

lemma connect_error_is_network: "is_network_error connect_error"
  by (simp add: is_network_error_def network_indicators_def connect_error_def)

lemma constraint_violation_not_network: "\<not> is_network_error constraint_violation"
  by (simp add: is_network_error_def network_indicators_def constraint_violation_def)

lemma saved_response_eq:
  "saved_response mm msg ((habit_dict sub)(''id'' \<mapsto> PStr i, ''created_at'' \<mapsto> PStr t)) =
     \<lparr>success = True, message = msg, habit_id = Some i\<rparr>"
  by (simp add: saved_response_def new_HabitResponse_def dict_str_def)

lemma habits_try_primary_ok:
  "insert_outcome env = None \<Longrightarrow>
   habits_try env mm w sub =
     (Inr \<lparr>success = True, message = ''Saved successfully'', habit_id = Some (uuid_first env)\<rparr>,
      w\<lparr>primary_habits := primary_habits w @ [first_body env sub]\<rparr>)"
  by (simp add: habits_try_def Let_def saved_response_eq first_body_def)

lemma habits_try_permanent:
  "insert_outcome env = Some e \<Longrightarrow> \<not> is_network_error e \<Longrightarrow>
   habits_try env mm w sub = (Inl e, w)"
  by (simp add: habits_try_def Let_def)

lemma habits_try_fallback_ok:
  "insert_outcome env = Some e \<Longrightarrow> is_network_error e \<Longrightarrow> write_first env = None \<Longrightarrow>
   habits_try env mm w sub =
     (Inr \<lparr>success = True, message = ''Saved successfully'', habit_id = Some (uuid_first env)\<rparr>,
      w\<lparr>offline := (offline w)\<lparr>habits_file :=
            Some (read_file (habits_file (offline w)) @ [first_body env sub])\<rparr>\<rparr>)"
  by (simp add: habits_try_def Let_def saved_response_eq first_body_def create_habit_def
        write_file_def)

lemma habits_try_fallback_fault:
  "insert_outcome env = Some e \<Longrightarrow> is_network_error e \<Longrightarrow> write_first env = Some e2 \<Longrightarrow>
   habits_try env mm w sub = (Inl e2, w)"
  by (simp add: habits_try_def Let_def create_habit_def write_file_def)

lemma habits_primary_ok:
  "insert_outcome env = None \<Longrightarrow>
   habits env mm w sub =
     (Inr \<lparr>success = True, message = ''Saved successfully'', habit_id = Some (uuid_first env)\<rparr>,
      w\<lparr>primary_habits := primary_habits w @ [first_body env sub]\<rparr>)"
  by (simp add: habits_def habits_try_primary_ok)

lemma habits_fallback_ok:
  "insert_outcome env = Some e \<Longrightarrow> is_network_error e \<Longrightarrow> write_first env = None \<Longrightarrow>
   habits env mm w sub =
     (Inr \<lparr>success = True, message = ''Saved successfully'', habit_id = Some (uuid_first env)\<rparr>,
      w\<lparr>offline := (offline w)\<lparr>habits_file :=
            Some (read_file (habits_file (offline w)) @ [first_body env sub])\<rparr>\<rparr>)"
  by (simp add: habits_def habits_try_fallback_ok)

lemma habits_permanent:
  "insert_outcome env = Some e \<Longrightarrow> \<not> is_network_error e \<Longrightarrow>
   habits env mm w sub =
     (Inr \<lparr>success = False, message = ''Error saving habit'', habit_id = None\<rparr>, w)"
  by (simp add: habits_def habits_try_permanent new_HabitResponse_def)

lemma habits_fault_permanent:
  "insert_outcome env = Some e \<Longrightarrow> is_network_error e \<Longrightarrow> write_first env = Some e2 \<Longrightarrow>
   \<not> is_network_error e2 \<Longrightarrow>
   habits env mm w sub =
     (Inr \<lparr>success = False, message = ''Error saving habit'', habit_id = None\<rparr>, w)"
  by (simp add: habits_def habits_try_fallback_fault new_HabitResponse_def)

lemma habits_fault_retry_ok:
  "insert_outcome env = Some e \<Longrightarrow> is_network_error e \<Longrightarrow> write_first env = Some e2 \<Longrightarrow>
   is_network_error e2 \<Longrightarrow> write_retry env = None \<Longrightarrow>
   habits env mm w sub =
     (Inr \<lparr>success = True, message = ''Saved offline (no internet connection)'',
           habit_id = Some (uuid_retry env)\<rparr>,
      w\<lparr>offline := (offline w)\<lparr>habits_file :=
            Some (read_file (habits_file (offline w)) @ [retry_body env sub])\<rparr>\<rparr>)"
  by (simp add: habits_def habits_try_fallback_fault Let_def saved_response_eq retry_body_def
        create_habit_def write_file_def)

lemma habits_fault_retry_fault:
  "insert_outcome env = Some e \<Longrightarrow> is_network_error e \<Longrightarrow> write_first env = Some e2 \<Longrightarrow>
   is_network_error e2 \<Longrightarrow> write_retry env = Some e3 \<Longrightarrow>
   habits env mm w sub =
     (Inr \<lparr>success = False, message = ''Error saving habit'', habit_id = None\<rparr>, w)"
  by (simp add: habits_def habits_try_fallback_fault Let_def new_HabitResponse_def
        create_habit_def write_file_def)

lemma body_identifier_timestamp:
  "first_body env sub ''id'' = Some (PStr (uuid_first env))"
  "first_body env sub ''created_at'' = Some (PStr (now_first env))"
  "retry_body env sub ''id'' = Some (PStr (uuid_retry env))"
  "retry_body env sub ''created_at'' = Some (PStr (now_retry env))"
  by (simp_all add: first_body_def retry_body_def)

text \<open>Every run of the route is one of six cases.\<close>

lemma habits_cases:
  obtains
    (primary) "insert_outcome env = None"
  | (permanent) e where "insert_outcome env = Some e" "\<not> is_network_error e"
  | (fallback) e where "insert_outcome env = Some e" "is_network_error e" "write_first env = None"
  | (fault) e e2 where "insert_outcome env = Some e" "is_network_error e"
      "write_first env = Some e2" "\<not> is_network_error e2"
  | (retry) e e2 where "insert_outcome env = Some e" "is_network_error e"
      "write_first env = Some e2" "is_network_error e2" "write_retry env = None"
  | (retry_fault) e e2 e3 where "insert_outcome env = Some e" "is_network_error e"
      "write_first env = Some e2" "is_network_error e2" "write_retry env = Some e3"
  by (cases "insert_outcome env"; cases "write_first env"; cases "write_retry env") blast+

lemma not_stored_unchanged:
  "\<not> stored_in_primary w w b" "\<not> stored_in_fallback w w b"
  by (auto simp: stored_in_primary_def stored_in_fallback_def read_file_def split: option.splits)

lemma outage_run:
  "habits outage_env loaded_manager empty_world sample_submission =
     (Inr \<lparr>success = True, message = ''Saved successfully'', habit_id = Some ''id-1''\<rparr>,
      empty_world\<lparr>offline := \<lparr>habits_file = Some [first_body outage_env sample_submission],
                                scans_file = Some []\<rparr>\<rparr>)"
  using habits_fallback_ok [of outage_env connect_error loaded_manager empty_world sample_submission]
    connect_error_is_network
  by (simp add: outage_env_def empty_world_def read_file_def)

lemma healthy_run:
  "habits healthy_env loaded_manager empty_world sample_submission =
     (Inr \<lparr>success = True, message = ''Saved successfully'', habit_id = Some ''id-1''\<rparr>,
      empty_world\<lparr>primary_habits := [first_body healthy_env sample_submission]\<rparr>)"
  using habits_primary_ok [of healthy_env loaded_manager empty_world sample_submission]
  by (simp add: healthy_env_def outage_env_def empty_world_def)

lemma constraint_run:
  "habits constraint_env loaded_manager empty_world sample_submission =
     (Inr \<lparr>success = False, message = ''Error saving habit'', habit_id = None\<rparr>, empty_world)"
  using habits_permanent [of constraint_env constraint_violation loaded_manager empty_world
      sample_submission] constraint_violation_not_network
  by (simp add: constraint_env_def)

text \<open>
  Claim C4. When the insert into the primary store raises an error that
  \<open>is_network_error\<close> classifies as a connectivity error, and the fallback medium accepts
  the write, the call appends to the fallback file the record that carries the identifier
  and the \<open>created_at\<close> timestamp assigned before the primary attempt; the primary store is
  untouched; it is the very record a successful primary insert would have stored; and
  the call reports success with that identifier.
\<close>

theorem habits_transient_fallback:
  assumes "insert_outcome env = Some e" and "is_network_error e" and "write_first env = None"
  shows "fst (habits env mm w sub) =
           Inr \<lparr>success = True, message = ''Saved successfully'',
                habit_id = Some (uuid_first env)\<rparr>
       \<and> stored_in_fallback w (snd (habits env mm w sub)) (first_body env sub)
       \<and> primary_habits (snd (habits env mm w sub)) = primary_habits w
       \<and> first_body env sub ''id'' = Some (PStr (uuid_first env))
       \<and> first_body env sub ''created_at'' = Some (PStr (now_first env))
       \<and> stored_in_primary w (snd (habits (env\<lparr>insert_outcome := None\<rparr>) mm w sub))
            (first_body env sub)"
proof -
  have p: "habits (env\<lparr>insert_outcome := None\<rparr>) mm w sub =
     (Inr \<lparr>success = True, message = ''Saved successfully'', habit_id = Some (uuid_first env)\<rparr>,
      w\<lparr>primary_habits := primary_habits w @ [first_body env sub]\<rparr>)"
    using habits_primary_ok [of "env\<lparr>insert_outcome := None\<rparr>" mm w sub]
    by (simp add: first_body_def)
  show ?thesis
    by (simp add: habits_fallback_ok [OF assms] p body_identifier_timestamp stored_in_fallback_def
          stored_in_primary_def)
qed

theorem habits_transient_fallback_witness:
  "insert_outcome outage_env = Some connect_error \<and> is_network_error connect_error
   \<and> write_first outage_env = None
   \<and> fst (habits outage_env loaded_manager empty_world sample_submission) =
       Inr \<lparr>success = True, message = ''Saved successfully'', habit_id = Some ''id-1''\<rparr>
   \<and> habits_file (offline (snd (habits outage_env loaded_manager empty_world sample_submission)))
       = Some [first_body outage_env sample_submission]
   \<and> first_body outage_env sample_submission ''id'' = Some (PStr ''id-1'')
   \<and> first_body outage_env sample_submission ''created_at''
       = Some (PStr ''2024-01-01T00:00:00+00:00'')"
proof -
  have h1: "insert_outcome outage_env = Some connect_error" by (simp add: outage_env_def)
  have h3: "write_first outage_env = None" by (simp add: outage_env_def)
  have u: "uuid_first outage_env = ''id-1''" "now_first outage_env = ''2024-01-01T00:00:00+00:00''"
    by (simp_all add: outage_env_def)
  show ?thesis
    using habits_transient_fallback [OF h1 connect_error_is_network h3, of loaded_manager empty_world sample_submission] h1 h3 connect_error_is_network
    by (simp add: u stored_in_fallback_def empty_world_def read_file_def)
qed

text \<open>
  Claim C5, as the code has it. When the insert into the primary store raises an error
  that is not classified as a connectivity error, the call does not fall back and leaves
  both stores as they were; the error does not leave the route: the handler answers a
  response with \<open>success = False\<close>, the message "Error saving habit" and no identifier.
\<close>

theorem habits_permanent_reported:
  assumes "insert_outcome env = Some e" and "\<not> is_network_error e"
  shows "habits env mm w sub =
           (Inr \<lparr>success = False, message = ''Error saving habit'', habit_id = None\<rparr>, w)"
  by (rule habits_permanent [OF assms])

theorem habits_permanent_reported_witness:
  "insert_outcome constraint_env = Some constraint_violation
   \<and> \<not> is_network_error constraint_violation
   \<and> habits constraint_env loaded_manager empty_world sample_submission =
       (Inr \<lparr>success = False, message = ''Error saving habit'', habit_id = None\<rparr>, empty_world)"
proof -
  have h1: "insert_outcome constraint_env = Some constraint_violation"
    by (simp add: constraint_env_def)
  show ?thesis
    using habits_permanent_reported [OF h1 constraint_violation_not_network, of loaded_manager empty_world sample_submission] h1 constraint_violation_not_network by simp
qed

text \<open>
  The claim as stated fails: on a constraint violation the route returns a response; the
  violation is not propagated to the caller.
\<close>

theorem habits_permanent_not_raised_counterexample:
  "\<not> is_network_error constraint_violation
   \<and> fst (habits constraint_env loaded_manager empty_world sample_submission) =
       Inr \<lparr>success = False, message = ''Error saving habit'', habit_id = None\<rparr>
   \<and> fst (habits constraint_env loaded_manager empty_world sample_submission)
       \<noteq> Inl constraint_violation"
  by (simp add: constraint_run constraint_violation_not_network)

text \<open>
  Claim C8, as the code has it. The route never raises, whatever the storage failures
  are. Whenever storage succeeded, in the primary or in the fallback store, the response
  reports success and carries the identifier of the stored record.
\<close>

theorem habits_stored_reports_success:
  "(\<exists>r. fst (habits env mm w sub) = Inr r)
   \<and> (\<forall>b. stored_in_primary w (snd (habits env mm w sub)) b
            \<or> stored_in_fallback w (snd (habits env mm w sub)) b
        \<longrightarrow> (\<exists>r i. fst (habits env mm w sub) = Inr r \<and> success r
                  \<and> b ''id'' = Some (PStr i) \<and> habit_id r = Some i))"
proof (cases env rule: habits_cases)
  case primary
  show ?thesis
    by (auto simp: habits_primary_ok [OF primary] stored_in_primary_def stored_in_fallback_def
          body_identifier_timestamp read_file_def split: option.splits)
next
  case (permanent e)
  show ?thesis
    by (simp add: habits_permanent [OF permanent] not_stored_unchanged)
next
  case (fallback e)
  show ?thesis
    by (auto simp: habits_fallback_ok [OF fallback] stored_in_primary_def stored_in_fallback_def
          body_identifier_timestamp)
next
  case (fault e e2)
  show ?thesis
    by (simp add: habits_fault_permanent [OF fault] not_stored_unchanged)
next
  case (retry e e2)
  show ?thesis
    by (auto simp: habits_fault_retry_ok [OF retry] stored_in_primary_def stored_in_fallback_def
          body_identifier_timestamp)
next
  case (retry_fault e e2 e3)
  show ?thesis
    by (simp add: habits_fault_retry_fault [OF retry_fault] not_stored_unchanged)
qed

theorem habits_stored_reports_success_witness:
  "stored_in_fallback empty_world
      (snd (habits outage_env loaded_manager empty_world sample_submission))
      (first_body outage_env sample_submission)
   \<and> (\<exists>r i. fst (habits outage_env loaded_manager empty_world sample_submission) = Inr r
          \<and> success r \<and> first_body outage_env sample_submission ''id'' = Some (PStr i)
          \<and> habit_id r = Some i)"
proof -
  have s: "stored_in_fallback empty_world
      (snd (habits outage_env loaded_manager empty_world sample_submission))
      (first_body outage_env sample_submission)"
    unfolding outage_run stored_in_fallback_def
    by (simp add: empty_world_def read_file_def)
  from habits_stored_reports_success [of outage_env loaded_manager empty_world sample_submission] s
  show ?thesis by blast
qed

text \<open>
  The claim as stated fails: the response of a successful ingestion has the fields
  \<open>success\<close>, \<open>message\<close> and \<open>habit_id\<close> only; it carries neither a score nor a confidence.
\<close>

theorem habit_response_fields_counterexample:
  "fst (habits healthy_env loaded_manager empty_world sample_submission) =
     Inr \<lparr>success = True, message = ''Saved successfully'', habit_id = Some ''id-1''\<rparr>
   \<and> dom (response_body
        \<lparr>success = True, message = ''Saved successfully'', habit_id = Some ''id-1''\<rparr>)
       = {''success'', ''message'', ''habit_id''}
   \<and> response_body
        \<lparr>success = True, message = ''Saved successfully'', habit_id = Some ''id-1''\<rparr>
        ''wellness_score'' = None
   \<and> response_body
        \<lparr>success = True, message = ''Saved successfully'', habit_id = Some ''id-1''\<rparr>
        ''wellness_confidence'' = None"
  by (auto simp: healthy_run response_body_def)

section \<open>Verified properties of the fallback store\<close>

lemma timestamp_scan_jan: "dict_get scan_jan ''scanned_at'' (PStr '''') = PStr ''2024-01-05T10:00:00+00:00''"
  by (simp add: scan_jan_def dict_get_def)

lemma timestamp_scan_feb: "dict_get scan_feb ''scanned_at'' (PStr '''') = PStr ''2024-02-05T10:00:00+00:00''"
  by (simp add: scan_feb_def dict_get_def)

lemma timestamp_scan_undated: "dict_get scan_undated ''scanned_at'' (PStr '''') = PStr ''''"
  by (simp add: scan_undated_def dict_get_def)

lemma timestamp_order_jan_feb: "''2024-01-05T10:00:00+00:00'' \<le> ''2024-02-05T10:00:00+00:00''"
  by simp

lemma timestamp_order_feb_jan: "\<not> ''2024-02-05T10:00:00+00:00'' \<le> ''2024-01-05T10:00:00+00:00''"
  by simp

lemma timestamp_order_feb_empty: "\<not> ''2024-02-05T10:00:00+00:00'' \<le> ''''"
  by simp

lemma py_sort_reverse_sample:
  "py_sort_reverse (\<lambda>x. dict_get x ''scanned_at'' (PStr '''')) [scan_jan, scan_undated, scan_feb]
     = Inr [scan_feb, scan_jan, scan_undated]"
  by (simp add: py_sort_reverse_def timestamp_scan_jan timestamp_scan_feb timestamp_scan_undated)

lemma get_scans_sample_all: "OfflineStorage_get_scans sample_storage 5 = Inr [scan_feb, scan_jan, scan_undated]"
  by (simp add: OfflineStorage_get_scans_def sample_storage_def read_file_def py_sort_reverse_sample
        py_slice_to_def)

lemma get_scans_sample_negative: "OfflineStorage_get_scans sample_storage (- 1) = Inr [scan_feb, scan_jan]"
  by (simp add: OfflineStorage_get_scans_def sample_storage_def read_file_def py_sort_reverse_sample
        py_slice_to_def)

lemma missing_timestamp_empty: "r field = None \<Longrightarrow> sort_timestamp field r = ''''"
  by (simp add: sort_timestamp_def dict_get_def)

lemma sorted_wrt_short: "length xs < 2 \<Longrightarrow> sorted_wrt P xs"
  by (cases xs; cases "tl xs") auto

lemma descending_sort:
  "sorted_wrt (\<lambda>a b. k b \<le> k a) (rev (sort_key k (rev xs)))"
proof -
  have "sorted (map k (sort_key k (rev xs)))" by simp
  then have "sorted_wrt (\<lambda>a b. k a \<le> k b) (sort_key k (rev xs))"
    by (simp add: sorted_map)
  then show ?thesis by (simp add: sorted_wrt_rev)
qed

lemma py_sort_reverse_strings:
  assumes "list_all (timestamp_ok field) xs"
  shows "\<exists>ys. py_sort_reverse (\<lambda>x. dict_get x field (PStr '''')) xs = Inr ys
            \<and> mset ys = mset xs
            \<and> sorted_wrt (\<lambda>a b. sort_timestamp field b \<le> sort_timestamp field a) ys"
proof (cases "length xs < 2")
  case True
  then show ?thesis by (simp add: py_sort_reverse_def sorted_wrt_short)
next
  case False
  have strs: "list_all (\<lambda>x. is_str (dict_get x field (PStr ''''))) xs"
    using assms by (simp add: timestamp_ok_def [abs_def])
  have k: "(\<lambda>x. str_of (dict_get x field (PStr ''''))) = sort_timestamp field"
    by (simp add: sort_timestamp_def fun_eq_iff)
  have "py_sort_reverse (\<lambda>x. dict_get x field (PStr '''')) xs =
          Inr (rev (sort_key (sort_timestamp field) (rev xs)))"
    using False strs by (simp add: py_sort_reverse_def k)
  then show ?thesis by (simp add: descending_sort)
qed

lemma missing_last:
  assumes "sorted_wrt (\<lambda>a b. sort_timestamp field b \<le> sort_timestamp field a) rs"
  shows "sorted_wrt (\<lambda>a b. a field = None \<longrightarrow> sort_timestamp field b = '''') rs"
proof (rule sorted_wrt_mono_rel [OF _ assms])
  fix a b
  assume "sort_timestamp field b \<le> sort_timestamp field a"
  then show "a field = None \<longrightarrow> sort_timestamp field b = ''''"
    by (auto simp: missing_timestamp_empty)
qed

lemma mset_take_subset: "mset (take n xs) \<subseteq># mset xs"
proof -
  have "mset xs = mset (take n xs) + mset (drop n xs)"
    by (metis append_take_drop_id mset_append)
  then show ?thesis by simp
qed

lemma recent_ok_slice:
  assumes "0 \<le> limit" and "mset ys = mset stored"
    and "sorted_wrt (\<lambda>a b. sort_timestamp field b \<le> sort_timestamp field a) ys"
  shows "recent_ok field stored limit (py_slice_to ys limit)"
proof -
  have sl: "py_slice_to ys limit = take (nat limit) ys"
    using assms(1) by (simp add: py_slice_to_def)
  have len: "length ys = length stored"
    using assms(2) by (metis size_mset)
  have s: "sorted_wrt (\<lambda>a b. sort_timestamp field b \<le> sort_timestamp field a)
             (take (nat limit) ys)"
    using assms(3) by (rule sorted_wrt_take)
  have sub: "mset (take (nat limit) ys) \<subseteq># mset stored"
    using mset_take_subset [of "nat limit" ys] assms(2) by simp
  show ?thesis
    unfolding recent_ok_def sl
    using assms(1) s sub missing_last [OF s] len by (auto simp: min_def)
qed

text \<open>
  Claim C9, as the code has it. For every limit that is not negative, and a store whose
  records carry a string timestamp or none, the fallback store's \<open>get_scans\<close> and
  \<open>get_habits\<close> return at most \<open>limit\<close> of the stored records, in non-increasing order of
  their timestamp (\<open>scanned_at\<close> for scans, \<open>created_at\<close> for habits); a record whose
  timestamp is missing sorts as the empty string, so no dated record comes after it.
\<close>

theorem offline_recent_sorted_bounded:
  assumes "0 \<le> limit"
    and "list_all (timestamp_ok ''scanned_at'') (read_file (scans_file st))"
    and "list_all (timestamp_ok ''created_at'') (read_file (habits_file st))"
  shows "(\<exists>rs. OfflineStorage_get_scans st limit = Inr rs
              \<and> recent_ok ''scanned_at'' (read_file (scans_file st)) limit rs)
       \<and> (\<exists>rs. OfflineStorage_get_habits st limit = Inr rs
              \<and> recent_ok ''created_at'' (read_file (habits_file st)) limit rs)
       \<and> (\<forall>r field. r field = None \<longrightarrow> sort_timestamp field r = '''')"
proof -
  from py_sort_reverse_strings [OF assms(2)] obtain ys where
    ys: "py_sort_reverse (\<lambda>x. dict_get x ''scanned_at'' (PStr '''')) (read_file (scans_file st))
           = Inr ys"
       "mset ys = mset (read_file (scans_file st))"
       "sorted_wrt (\<lambda>a b. sort_timestamp ''scanned_at'' b \<le> sort_timestamp ''scanned_at'' a) ys"
    by blast
  from py_sort_reverse_strings [OF assms(3)] obtain zs where
    zs: "py_sort_reverse (\<lambda>x. dict_get x ''created_at'' (PStr '''')) (read_file (habits_file st))
           = Inr zs"
       "mset zs = mset (read_file (habits_file st))"
       "sorted_wrt (\<lambda>a b. sort_timestamp ''created_at'' b \<le> sort_timestamp ''created_at'' a) zs"
    by blast
  have a: "OfflineStorage_get_scans st limit = Inr (py_slice_to ys limit)"
    by (simp add: OfflineStorage_get_scans_def ys(1))
  have b: "OfflineStorage_get_habits st limit = Inr (py_slice_to zs limit)"
    by (simp add: OfflineStorage_get_habits_def zs(1))
  show ?thesis
    using a b recent_ok_slice [OF assms(1) ys(2,3)] recent_ok_slice [OF assms(1) zs(2,3)]
      missing_timestamp_empty
    by blast
qed

theorem offline_recent_sorted_bounded_witness:
  "OfflineStorage_get_scans sample_storage 2 = Inr [scan_feb, scan_jan]
   \<and> recent_ok ''scanned_at'' [scan_jan, scan_undated, scan_feb] 2 [scan_feb, scan_jan]
   \<and> OfflineStorage_get_scans sample_storage 5 = Inr [scan_feb, scan_jan, scan_undated]
   \<and> recent_ok ''scanned_at'' [scan_jan, scan_undated, scan_feb] 5
        [scan_feb, scan_jan, scan_undated]
   \<and> scan_undated ''scanned_at'' = None
   \<and> sort_timestamp ''scanned_at'' scan_undated = ''''
   \<and> OfflineStorage_get_habits sample_storage 5 = Inr []"
proof -
  have ok1: "list_all (timestamp_ok ''scanned_at'') (read_file (scans_file sample_storage))"
    by (simp add: sample_storage_def read_file_def timestamp_ok_def timestamp_scan_jan timestamp_scan_feb timestamp_scan_undated)
  have ok2: "list_all (timestamp_ok ''created_at'') (read_file (habits_file sample_storage))"
    by (simp add: sample_storage_def read_file_def)
  have rd: "read_file (scans_file sample_storage) = [scan_jan, scan_undated, scan_feb]"
    by (simp add: sample_storage_def read_file_def)
  have g2: "OfflineStorage_get_scans sample_storage 2 = Inr [scan_feb, scan_jan]"
    by (simp add: OfflineStorage_get_scans_def sample_storage_def read_file_def py_sort_reverse_sample
          py_slice_to_def)
  have h5: "OfflineStorage_get_habits sample_storage 5 = Inr []"
    by (simp add: OfflineStorage_get_habits_def sample_storage_def read_file_def
          py_sort_reverse_def py_slice_to_def)
  have u: "scan_undated ''scanned_at'' = None" by (simp add: scan_undated_def)
  have l2: "(0::int) \<le> 2" and l5: "(0::int) \<le> 5" by simp_all
  show ?thesis
    using offline_recent_sorted_bounded [OF l2 ok1 ok2] offline_recent_sorted_bounded [OF l5 ok1 ok2] g2 get_scans_sample_all h5 u
    by (simp add: rd)
qed

text \<open>
  The claim as stated fails for a negative limit: \<open>xs[:-1]\<close> drops the last record only,
  so with three stored scans and the limit -1 two records are returned.
\<close>

theorem offline_recent_negative_limit_counterexample:
  "OfflineStorage_get_scans sample_storage (- 1) = Inr [scan_feb, scan_jan]
   \<and> \<not> int (length [scan_feb, scan_jan]) \<le> - 1"
  by (simp add: get_scans_sample_negative)

section \<open>Verified properties of the read orchestrator\<close>

lemma permission_denied_not_network: "\<not> is_network_error permission_denied"
  by (simp add: is_network_error_def network_indicators_def permission_denied_def)

lemma timeout_error_is_network: "is_network_error timeout_error"
  by (simp add: is_network_error_def network_indicators_def timeout_error_def)

lemma get_scans_of_retrieve:
  "get_scans parse mm so st limit =
     (case retrieve_scans so st limit of
        Inl e \<Rightarrow> Inr \<lparr>scans_success = True, scans_data = []\<rparr>
      | Inr rows \<Rightarrow> Inr \<lparr>scans_success = True, scans_data = format_scans parse mm rows\<rparr>)"
  by (cases "retrieve_scans so st limit")
     (auto simp: get_scans_def get_scans_try_def)

lemma set_format_scans:
  "set (format_scans parse mm rows) = {d. \<exists>s \<in> set rows. format_scan parse mm s = Inr d}"
  by (induction rows) (auto split: sum.splits)

lemma format_scan_null_confidence:
  "format_scan parse mm scan_null_confidence =
     Inl (TypeError ''float() argument must be a string or a real number'')"
  by (simp add: format_scan_def Let_def py_float_def scan_null_confidence_def dict_get_def)

lemma format_scan_jan: "\<exists>d. format_scan no_parse loaded_manager scan_jan = Inr d"
  by (simp add: format_scan_def Let_def py_float_def scan_jan_def dict_get_def num_key_def)

text \<open>
  Claim C6, as the code has it. When the query on the primary store raises, the route
  classifies the error. A connectivity error makes it read the fallback store instead and
  answer the formatted records (an empty sequence if the fallback retrieval raises). Any
  other error is absorbed: the route answers a successful response with an empty
  sequence.
\<close>

theorem get_scans_store_error:
  "(is_network_error e \<longrightarrow>
      retrieve_scans (Inl e) st limit = OfflineStorage_get_scans st limit
      \<and> get_scans parse mm (Inl e) st limit =
          (case OfflineStorage_get_scans st limit of
             Inr rows \<Rightarrow> Inr \<lparr>scans_success = True, scans_data = format_scans parse mm rows\<rparr>
           | Inl e2 \<Rightarrow> Inr \<lparr>scans_success = True, scans_data = []\<rparr>))
   \<and> (\<not> is_network_error e \<longrightarrow>
      get_scans parse mm (Inl e) st limit = Inr \<lparr>scans_success = True, scans_data = []\<rparr>)"
  by (auto simp: get_scans_of_retrieve retrieve_scans_def split: sum.splits)

theorem get_scans_store_error_witness:
  "is_network_error timeout_error
   \<and> retrieve_scans (Inl timeout_error) sample_storage 5 = Inr [scan_feb, scan_jan, scan_undated]
   \<and> get_scans no_parse loaded_manager (Inl timeout_error) sample_storage 5 =
        Inr \<lparr>scans_success = True,
             scans_data = format_scans no_parse loaded_manager [scan_feb, scan_jan, scan_undated]\<rparr>
   \<and> \<not> is_network_error permission_denied
   \<and> get_scans no_parse loaded_manager (Inl permission_denied) sample_storage 5
       = Inr \<lparr>scans_success = True, scans_data = []\<rparr>"
  using get_scans_store_error [of timeout_error sample_storage 5 no_parse loaded_manager]
    get_scans_store_error [of permission_denied sample_storage 5 no_parse loaded_manager]
    timeout_error_is_network permission_denied_not_network
  by (simp add: get_scans_sample_all)

text \<open>
  The claim as stated fails: a permanent error of the primary store is not propagated; the
  route answers success with an empty sequence, although the fallback store holds scans.
\<close>

theorem get_scans_permanent_absorbed_counterexample:
  "\<not> is_network_error permission_denied
   \<and> get_scans no_parse loaded_manager (Inl permission_denied) sample_storage 5
       = Inr \<lparr>scans_success = True, scans_data = []\<rparr>
   \<and> get_scans no_parse loaded_manager (Inl permission_denied) sample_storage 5
       \<noteq> Inl permission_denied"
  by (simp add: permission_denied_not_network get_scans_of_retrieve retrieve_scans_def)

text \<open>
  Claim C7, as the code has it. The route never raises and always answers a successful
  response. When the retrieval step raises (a permanent error of the primary store, or a
  failing fallback retrieval) the sequence is empty. When the retrieval answers rows, the
  sequence holds the formatted rows: a row whose formatting raises is left out, the others
  are kept.
\<close>

theorem get_scans_never_raises:
  "(\<exists>r. get_scans parse mm so st limit = Inr r \<and> scans_success r)
   \<and> (\<forall>e. retrieve_scans so st limit = Inl e \<longrightarrow>
          get_scans parse mm so st limit = Inr \<lparr>scans_success = True, scans_data = []\<rparr>)
   \<and> (\<forall>rows. retrieve_scans so st limit = Inr rows \<longrightarrow>
          (\<exists>r. get_scans parse mm so st limit = Inr r
             \<and> set (scans_data r) = {d. \<exists>s \<in> set rows. format_scan parse mm s = Inr d}))"
  by (cases "retrieve_scans so st limit") (auto simp: get_scans_of_retrieve set_format_scans)

theorem get_scans_never_raises_witness:
  "retrieve_scans (Inl permission_denied) sample_storage 5 = Inl permission_denied
   \<and> get_scans no_parse loaded_manager (Inl permission_denied) sample_storage 5
       = Inr \<lparr>scans_success = True, scans_data = []\<rparr>
   \<and> retrieve_scans (Inr [scan_jan, scan_null_confidence]) sample_storage 5
       = Inr [scan_jan, scan_null_confidence]
   \<and> (\<exists>r. get_scans no_parse loaded_manager (Inr [scan_jan, scan_null_confidence])
             sample_storage 5 = Inr r \<and> scans_success r
          \<and> set (scans_data r) =
               {d. \<exists>s \<in> set [scan_jan, scan_null_confidence].
                     format_scan no_parse loaded_manager s = Inr d})"
proof -
  have r1: "retrieve_scans (Inl permission_denied) sample_storage 5 = Inl permission_denied"
    by (simp add: retrieve_scans_def permission_denied_not_network)
  have r2: "retrieve_scans (Inr [scan_jan, scan_null_confidence]) sample_storage 5
       = Inr [scan_jan, scan_null_confidence]"
    by (simp add: retrieve_scans_def)
  note a = get_scans_never_raises [of no_parse loaded_manager "Inl permission_denied" sample_storage 5]
  note b = get_scans_never_raises [of no_parse loaded_manager "Inr [scan_jan, scan_null_confidence]" sample_storage 5]
  from a r1 have g1: "get_scans no_parse loaded_manager (Inl permission_denied) sample_storage 5
       = Inr \<lparr>scans_success = True, scans_data = []\<rparr>" by blast
  from b r2 obtain r where
    g2: "get_scans no_parse loaded_manager (Inr [scan_jan, scan_null_confidence])
             sample_storage 5 = Inr r"
      "set (scans_data r) =
               {d. \<exists>s \<in> set [scan_jan, scan_null_confidence].
                     format_scan no_parse loaded_manager s = Inr d}"
    by blast
  from b g2(1) have "scans_success r" by auto
  with r1 r2 g1 g2 show ?thesis by blast
qed

text \<open>
  The claim as stated fails for an error in the formatting step: of two rows, the one with
  a null emotion confidence raises in \<open>float\<close> and is skipped, and the response still
  carries the other row, so the sequence is not empty.
\<close>

theorem get_scans_skips_record_counterexample:
  "format_scan no_parse loaded_manager scan_null_confidence =
     Inl (TypeError ''float() argument must be a string or a real number'')
   \<and> (\<exists>d. get_scans no_parse loaded_manager (Inr [scan_jan, scan_null_confidence])
             sample_storage 5 = Inr \<lparr>scans_success = True, scans_data = [d]\<rparr>)"
proof -
  obtain d where d: "format_scan no_parse loaded_manager scan_jan = Inr d"
    using format_scan_jan by blast
  have "get_scans no_parse loaded_manager (Inr [scan_jan, scan_null_confidence])
             sample_storage 5 = Inr \<lparr>scans_success = True, scans_data = [d]\<rparr>"
    by (simp add: get_scans_of_retrieve retrieve_scans_def d format_scan_null_confidence)
  then show ?thesis using format_scan_null_confidence by blast
qed

end
